theory Spec2Isabelle
  imports Main "HOL-Library.Word"
begin

unbundle bit_operations_syntax

section \<open>Machine types and the constants of the headers\<close>

text \<open>
  \<^verbatim>\<open>savestate.c\<close> keeps one \<^verbatim>\<open>GameSave\<close> structure in memory, mirrors it byte for byte
  in the EEPROM of the console, and exchanges its fields with the game through the
  getters and setters of \<^verbatim>\<open>core.h\<close>, \<^verbatim>\<open>results.h\<close> and \<^verbatim>\<open>minigame.h\<close>.
  \<^verbatim>\<open>uint8_t\<close> and \<^verbatim>\<open>uint32_t\<close> are words; arithmetic on them wraps around.
\<close>

type_synonym u8 = "8 word"
type_synonym u32 = "32 word"

text \<open>
  Modelled from the spec: the macro \<^verbatim>\<open>MAXPLAYERS\<close> of \<^verbatim>\<open>core.h\<close>. The spec's layout
  section takes four players, and \<^verbatim>\<open>savestate_load\<close> addresses \<^verbatim>\<open>points[0]\<close> to
  \<^verbatim>\<open>points[3]\<close> for \<^verbatim>\<open>PLAYER_1\<close> to \<^verbatim>\<open>PLAYER_4\<close>.
\<close>

definition MAXPLAYERS :: nat where
  "MAXPLAYERS = 4"

text \<open>
  Modelled from the spec: the player numbers of \<^verbatim>\<open>core.h\<close>, counted from
  \<^verbatim>\<open>PLAYER_1\<close>; \<^verbatim>\<open>savestate_save\<close> reaches player \<open>i\<close> as \<^verbatim>\<open>PLAYER_1+i\<close>.
\<close>

definition PLAYER_1 :: nat where "PLAYER_1 = 0"
definition PLAYER_2 :: nat where "PLAYER_2 = 1"
definition PLAYER_3 :: nat where "PLAYER_3 = 2"
definition PLAYER_4 :: nat where "PLAYER_4 = 3"

section \<open>The record and its byte image\<close>

text \<open>
  The structure, field by field. The three arrays are lists; their C types fix the
  lengths (\<open>wf_GameSave\<close>). After \<^verbatim>\<open>checksum\<close> at offset 22 the compiler adds one
  byte of padding, because the \<^verbatim>\<open>uint32_t\<close> member aligns the structure to four bytes:
  \<^verbatim>\<open>sizeof(GameSave)\<close> is 24, and the padding byte is read, summed and written with
  the rest. It is the field \<open>tailpad\<close>.
\<close>

record GameSave =
  header :: "u8 list"
  blacklist :: u32
  crashedflag :: u8
  aidiff :: u8
  pointstowin :: u8
  nextplaystyle :: u8
  playerconts :: "u8 list"
  points :: "u8 list"
  chooser :: u8
  curgame :: u8
  checksum :: u8
  tailpad :: u8

definition sizeof_GameSave :: nat where
  "sizeof_GameSave = 24"

definition wf_GameSave :: "GameSave \<Rightarrow> bool" where
  "wf_GameSave gs =
     (length (header gs) = 4 \<and> length (playerconts gs) = MAXPLAYERS
      \<and> length (points gs) = MAXPLAYERS)"

text \<open>The console is big-endian: the most significant byte of a word comes first.\<close>

definition u32_bytes :: "u32 \<Rightarrow> u8 list" where
  "u32_bytes w =
     [ucast (drop_bit 24 w), ucast (drop_bit 16 w), ucast (drop_bit 8 w), ucast w]"

definition u32_of_bytes :: "u8 list \<Rightarrow> u32" where
  "u32_of_bytes bs =
     push_bit 24 (ucast (bs ! 0)) OR push_bit 16 (ucast (bs ! 1))
       OR push_bit 8 (ucast (bs ! 2)) OR ucast (bs ! 3)"

text \<open>\<^verbatim>\<open>(uint8_t*)&global_gamesave\<close>: the structure seen as bytes.\<close>

definition asarray :: "GameSave \<Rightarrow> u8 list" where
  "asarray gs =
     header gs @ u32_bytes (blacklist gs)
       @ [crashedflag gs, aidiff gs, pointstowin gs, nextplaystyle gs]
       @ playerconts gs @ points gs
       @ [chooser gs, curgame gs, checksum gs, tailpad gs]"

text \<open>Bytes stored over the structure, as \<^verbatim>\<open>eeprom_read_bytes\<close> and \<^verbatim>\<open>memset\<close> do.\<close>

definition GameSave_of_bytes :: "u8 list \<Rightarrow> GameSave" where
  "GameSave_of_bytes bs =
     \<lparr>header = take 4 bs,
      blacklist = u32_of_bytes (take 4 (drop 4 bs)),
      crashedflag = bs ! 8,
      aidiff = bs ! 9,
      pointstowin = bs ! 10,
      nextplaystyle = bs ! 11,
      playerconts = take MAXPLAYERS (drop 12 bs),
      points = take MAXPLAYERS (drop (12 + MAXPLAYERS) bs),
      chooser = bs ! (12 + 2 * MAXPLAYERS),
      curgame = bs ! (13 + 2 * MAXPLAYERS),
      checksum = bs ! (14 + 2 * MAXPLAYERS),
      tailpad = bs ! (15 + 2 * MAXPLAYERS)\<rparr>"

section \<open>Loops\<close>

text \<open>\<^verbatim>\<open>for (int i = lo; i < n; i++) body\<close>, the body acting on the state \<open>st\<close>.\<close>

function for_loop :: "nat \<Rightarrow> nat \<Rightarrow> (nat \<Rightarrow> 'a \<Rightarrow> 'a) \<Rightarrow> 'a \<Rightarrow> 'a" where
  "for_loop i n body st = (if i < n then for_loop (i + 1) n body (body i st) else st)"
  by pat_completeness auto
termination
  by (relation "measure (\<lambda>(i, n, body, st). n - i)") auto

declare for_loop.simps [simp del]

section \<open>The checksum\<close>

text \<open>
  \<^verbatim>\<open>calc_checksum\<close> adds every byte of the structure into a \<^verbatim>\<open>uint8_t\<close>: all
  \<^verbatim>\<open>sizeof(GameSave)\<close> of them, the byte of the \<^verbatim>\<open>checksum\<close> field and the padding
  byte included.
\<close>

definition calc_checksum :: "GameSave \<Rightarrow> u8" where
  "calc_checksum gs =
     for_loop 0 sizeof_GameSave (\<lambda>i checksum. checksum + asarray gs ! i) 0"

text \<open>
  What the specification compares the checksum with: the sum of all the other bytes of
  the image, that is of every byte but the one at the offset of \<^verbatim>\<open>checksum\<close>.
\<close>

definition checksum_offset :: nat where
  "checksum_offset = 22"

definition sum_other_bytes :: "GameSave \<Rightarrow> u8" where
  "sum_other_bytes gs =
     sum_list (take checksum_offset (asarray gs) @ drop (Suc checksum_offset) (asarray gs))"

section \<open>The device, the game and the module's globals\<close>

datatype eeprom_type_t = EEPROM_NONE | EEPROM_4K | EEPROM_16K

text \<open>
  The game behind the getters of \<^verbatim>\<open>savestate_save\<close>. Their C result types are in
  headers that are not at hand; the results are integers, and storing one in a
  \<^verbatim>\<open>uint8_t\<close> field keeps it modulo 256.
\<close>

record provider =
  core_get_playerconts :: "nat \<Rightarrow> bool"
  core_get_aidifficulty :: int
  results_get_points_to_win :: int
  results_get_points :: "nat \<Rightarrow> int"
  core_get_nextround :: int
  core_get_curchooser :: int
  minigame_get_index :: int

text \<open>
  The calls that leave the module: the two EEPROM transfers and the setters of
  \<^verbatim>\<open>savestate_load\<close>, each with its arguments.
\<close>

datatype call =
    eeprom_read_bytes_call nat nat
  | eeprom_write_bytes_call "u8 list" nat nat
  | core_set_playercount "bool list"
  | core_set_aidifficulty u8
  | results_set_points_to_win u8
  | results_set_points nat u8
  | core_set_nextround u8
  | core_set_curchooser u8
  | minigame_loadnext string

text \<open>
  The state: the device (\<open>eeprom_type\<close> is what \<^verbatim>\<open>eeprom_present\<close> reports,
  \<open>eeprom\<close> its contents), the two globals of the module, and the calls issued so far,
  the latest last.
\<close>

record machine =
  eeprom_type :: eeprom_type_t
  eeprom :: "u8 list"
  global_cansave :: u8
  global_gamesave :: GameSave
  calls :: "call list"

definition eeprom_present :: "machine \<Rightarrow> eeprom_type_t" where
  "eeprom_present s = eeprom_type s"

definition eeprom_read_bytes :: "u8 list \<Rightarrow> nat \<Rightarrow> nat \<Rightarrow> u8 list" where
  "eeprom_read_bytes mem start len = take len (drop start mem)"

definition eeprom_write_bytes :: "u8 list \<Rightarrow> u8 list \<Rightarrow> nat \<Rightarrow> nat \<Rightarrow> u8 list" where
  "eeprom_write_bytes mem src start len =
     take start mem @ take len src @ drop (start + len) mem"

text \<open>
  \<^verbatim>\<open>eeprom_read_bytes((uint8_t*)(&global_gamesave), 0, sizeof(GameSave))\<close> and
  \<^verbatim>\<open>eeprom_write_bytes((uint8_t*)(&global_gamesave), 0, sizeof(GameSave))\<close>.
\<close>

definition read_gamesave :: "machine \<Rightarrow> machine" where
  "read_gamesave s =
     s\<lparr>global_gamesave := GameSave_of_bytes (eeprom_read_bytes (eeprom s) 0 sizeof_GameSave),
       calls := calls s @ [eeprom_read_bytes_call 0 sizeof_GameSave]\<rparr>"

definition write_gamesave :: "machine \<Rightarrow> machine" where
  "write_gamesave s =
     s\<lparr>eeprom :=
         eeprom_write_bytes (eeprom s) (asarray (global_gamesave s)) 0 sizeof_GameSave,
       calls := calls s
         @ [eeprom_write_bytes_call (asarray (global_gamesave s)) 0 sizeof_GameSave]\<rparr>"

section \<open>Initialisation\<close>

text \<open>
  \<^verbatim>\<open>strncmp\<close> of the C library: at most \<open>n\<close> characters are compared, up to the first
  difference or the first NUL. The end of a list stands for the terminating NUL.
\<close>

fun strncmp :: "u8 list \<Rightarrow> u8 list \<Rightarrow> nat \<Rightarrow> int" where
  "strncmp s1 s2 0 = 0"
| "strncmp s1 s2 (Suc n) =
     (let c1 = (case s1 of [] \<Rightarrow> 0 | c # _ \<Rightarrow> c);
          c2 = (case s2 of [] \<Rightarrow> 0 | c # _ \<Rightarrow> c)
      in if c1 \<noteq> c2 then uint c1 - uint c2
         else if c1 = 0 then 0
         else strncmp (tl s1) (tl s2) n)"

text \<open>The literal \<^verbatim>\<open>"NBGJ"\<close>: the codes of N, B, G and J.\<close>

definition NBGJ :: "u8 list" where
  "NBGJ = [0x4E, 0x42, 0x47, 0x4A]"

text \<open>
  The branch of \<^verbatim>\<open>savestate_initialize\<close> for an EEPROM that was never written:
  \<^verbatim>\<open>memset\<close> to zero, the four characters of the header, then the checksum.
\<close>

definition format_gamesave :: "GameSave" where
  "format_gamesave =
     (let gs0 = GameSave_of_bytes (replicate sizeof_GameSave 0);
          gs1 = gs0\<lparr>header := (header gs0)[0 := 0x4E]\<rparr>;
          gs2 = gs1\<lparr>header := (header gs1)[1 := 0x42]\<rparr>;
          gs3 = gs2\<lparr>header := (header gs2)[2 := 0x47]\<rparr>;
          gs4 = gs3\<lparr>header := (header gs3)[3 := 0x4A]\<rparr>
      in gs4\<lparr>checksum := calc_checksum gs4\<rparr>)"

definition savestate_initialize :: "machine \<Rightarrow> bool \<times> machine" where
  "savestate_initialize s0 =
     (let s1 = s0\<lparr>global_cansave := 0\<rparr> in
      if eeprom_present s1 = EEPROM_NONE then (False, s1)
      else
        let s2 = s1\<lparr>global_cansave := 1\<rparr>;
            s3 = read_gamesave s2
        in if strncmp (header (global_gamesave s3)) NBGJ 4 \<noteq> 0
           then (True, s3\<lparr>global_gamesave := format_gamesave\<rparr>)
           else (True, s3))"

definition savestate_checkcrashed :: "machine \<Rightarrow> bool" where
  "savestate_checkcrashed s = (crashedflag (global_gamesave s) \<noteq> 0)"

section \<open>Saving, loading, clearing\<close>

text \<open>
  The block of \<^verbatim>\<open>savestate_save\<close> under \<^verbatim>\<open>if (!configonly)\<close>, statement by statement.
  The checksum is computed last, over the structure as it then stands.
\<close>

definition grab_game_state :: "provider \<Rightarrow> GameSave \<Rightarrow> GameSave" where
  "grab_game_state g gs =
     (let gs1 = gs\<lparr>crashedflag := 1\<rparr>;
          gs2 = for_loop 0 MAXPLAYERS
                  (\<lambda>i r. r\<lparr>playerconts := (playerconts r)[i := of_bool (core_get_playerconts g i)]\<rparr>)
                  gs1;
          gs3 = gs2\<lparr>aidiff := word_of_int (core_get_aidifficulty g)\<rparr>;
          gs4 = gs3\<lparr>pointstowin := word_of_int (results_get_points_to_win g)\<rparr>;
          gs5 = for_loop 0 MAXPLAYERS
                  (\<lambda>i r. r\<lparr>points := (points r)[i := word_of_int (results_get_points g (PLAYER_1 + i))]\<rparr>)
                  gs4;
          gs6 = gs5\<lparr>nextplaystyle := word_of_int (core_get_nextround g)\<rparr>;
          gs7 = gs6\<lparr>chooser := word_of_int (core_get_curchooser g)\<rparr>;
          gs8 = gs7\<lparr>curgame := word_of_int (minigame_get_index g)\<rparr>
      in gs8\<lparr>checksum := calc_checksum gs8\<rparr>)"

definition savestate_save :: "provider \<Rightarrow> bool \<Rightarrow> machine \<Rightarrow> machine" where
  "savestate_save g configonly s =
     (if global_cansave s = 0 then s
      else
        let s1 = (if \<not> configonly
                  then s\<lparr>global_gamesave := grab_game_state g (global_gamesave s)\<rparr>
                  else s)
        in write_gamesave s1)"

text \<open>
  Reading past an array and shifting a 32-bit value by 32 or more are undefined in C;
  the model ends such a call with an error instead of a result.
\<close>

datatype error = Out_of_bounds | Shift_too_wide

text \<open>
  \<^verbatim>\<open>savestate_load\<close>. The table \<^verbatim>\<open>global_minigame_list\<close> is declared elsewhere; the
  model takes the \<^verbatim>\<open>internalname\<close> of its entries as the list \<open>minigame_list\<close>.
\<close>

definition savestate_load :: "string list \<Rightarrow> machine \<Rightarrow> error + machine" where
  "savestate_load minigame_list s =
     (if global_cansave s = 0 then Inr s
      else
        let gs = global_gamesave s;
            conts = for_loop 0 MAXPLAYERS
                      (\<lambda>i a. a[i := (playerconts gs ! i \<noteq> 0)])
                      (replicate MAXPLAYERS False);
            pushed =
              [core_set_playercount conts,
               core_set_aidifficulty (aidiff gs),
               results_set_points_to_win (pointstowin gs),
               results_set_points PLAYER_1 (points gs ! 0),
               results_set_points PLAYER_2 (points gs ! 1),
               results_set_points PLAYER_3 (points gs ! 2),
               results_set_points PLAYER_4 (points gs ! 3),
               core_set_nextround (nextplaystyle gs),
               core_set_curchooser (chooser gs)]
        in if unat (curgame gs) < length minigame_list
           then Inr (s\<lparr>calls := calls s @ pushed
                         @ [minigame_loadnext (minigame_list ! unat (curgame gs))]\<rparr>)
           else Inl Out_of_bounds)"

definition savestate_clear :: "machine \<Rightarrow> machine" where
  "savestate_clear s =
     (if global_cansave s = 0 then s
      else write_gamesave (s\<lparr>global_gamesave := (global_gamesave s)\<lparr>crashedflag := 0\<rparr>\<rparr>))"

section \<open>The blacklist\<close>

text \<open>
  \<^verbatim>\<open>bitfield |= (list[i] & 0x01) << i\<close> for \<open>i\<close> below \<^verbatim>\<open>global_minigame_count\<close>.
  The operand is an \<^verbatim>\<open>int\<close> of 32 bits; the compiler of the console (GCC) gives the
  shift into the sign bit its two's complement value.
\<close>

function setblacklist_loop :: "nat \<Rightarrow> bool list \<Rightarrow> nat \<Rightarrow> u32 \<Rightarrow> error + u32" where
  "setblacklist_loop global_minigame_count list i bitfield =
     (if i < global_minigame_count then
        if length list \<le> i then Inl Out_of_bounds
        else if 32 \<le> i then Inl Shift_too_wide
        else setblacklist_loop global_minigame_count list (i + 1)
               (bitfield OR push_bit i (of_bool (list ! i) AND 1))
      else Inr bitfield)"
  by pat_completeness auto
termination
  by (relation "measure (\<lambda>(n, list, i, bitfield). n - i)") auto

declare setblacklist_loop.simps [simp del]

definition savestate_setblacklist :: "nat \<Rightarrow> bool list \<Rightarrow> machine \<Rightarrow> error + machine" where
  "savestate_setblacklist global_minigame_count list s =
     (case setblacklist_loop global_minigame_count list 0 0 of
        Inl e \<Rightarrow> Inl e
      | Inr bitfield \<Rightarrow>
          Inr (s\<lparr>global_gamesave := (global_gamesave s)\<lparr>blacklist := bitfield\<rparr>\<rparr>))"

text \<open>\<^verbatim>\<open>list[i] = (global_gamesave.blacklist >> i) & 0x01\<close>; the result is the array.\<close>

function getblacklist_loop :: "nat \<Rightarrow> u32 \<Rightarrow> nat \<Rightarrow> bool list \<Rightarrow> error + bool list" where
  "getblacklist_loop global_minigame_count bl i list =
     (if i < global_minigame_count then
        if length list \<le> i then Inl Out_of_bounds
        else if 32 \<le> i then Inl Shift_too_wide
        else getblacklist_loop global_minigame_count bl (i + 1)
               (list[i := (drop_bit i bl AND 1 \<noteq> 0)])
      else Inr list)"
  by pat_completeness auto
termination
  by (relation "measure (\<lambda>(n, bl, i, list). n - i)") auto

declare getblacklist_loop.simps [simp del]

definition savestate_getblacklist :: "nat \<Rightarrow> bool list \<Rightarrow> machine \<Rightarrow> error + bool list" where
  "savestate_getblacklist global_minigame_count list s =
     getblacklist_loop global_minigame_count (blacklist (global_gamesave s)) 0 list"

section \<open>Runs from power-on\<close>

text \<open>
  At power-on the two globals, of static storage, are zero and nothing has been called.
\<close>

definition boot :: "eeprom_type_t \<Rightarrow> u8 list \<Rightarrow> machine" where
  "boot ty mem =
     \<lparr>eeprom_type = ty, eeprom = mem, global_cansave = 0,
      global_gamesave = GameSave_of_bytes (replicate sizeof_GameSave 0), calls = []\<rparr>"

datatype operation =
    Initialize
  | Checkcrashed
  | Save provider bool
  | Load "string list"
  | Clear
  | Setblacklist nat "bool list"
  | Getblacklist nat "bool list"

fun step :: "operation \<Rightarrow> machine \<Rightarrow> error + machine" where
  "step Initialize s = Inr (snd (savestate_initialize s))"
| "step Checkcrashed s = Inr s"
| "step (Save g configonly) s = Inr (savestate_save g configonly s)"
| "step (Load minigame_list) s = savestate_load minigame_list s"
| "step Clear s = Inr (savestate_clear s)"
| "step (Setblacklist n list) s = savestate_setblacklist n list s"
| "step (Getblacklist n list) s =
     (case savestate_getblacklist n list s of Inl e \<Rightarrow> Inl e | Inr _ \<Rightarrow> Inr s)"

fun exec :: "operation list \<Rightarrow> machine \<Rightarrow> error + machine" where
  "exec [] s = Inr s"
| "exec (x # xs) s = (case step x s of Inl e \<Rightarrow> Inl e | Inr s' \<Rightarrow> exec xs s')"

section \<open>Sample inputs\<close>

text \<open>
  A 4-kilobit EEPROM fresh from the factory (512 bytes, each \<open>0xFF\<close>); one that holds a
  record saved in the middle of a match, its checksum the sum of the other bytes; and a
  game whose getters all return zero or false.
\<close>

definition blank_eeprom :: "u8 list" where
  "blank_eeprom = replicate 512 255"

definition crashed_image :: "u8 list" where
  "crashed_image =
     [0x4E, 0x42, 0x47, 0x4A, 0, 0, 0, 0, 1, 0, 0, 0,
      0, 0, 0, 0, 0, 0, 0, 0, 0, 0, 34, 0] @ replicate 488 255"

definition idle_game :: provider where
  "idle_game =
     \<lparr>core_get_playerconts = (\<lambda>_. False), core_get_aidifficulty = 0,
      results_get_points_to_win = 0, results_get_points = (\<lambda>_. 0),
      core_get_nextround = 0, core_get_curchooser = 0, minigame_get_index = 0\<rparr>"

text \<open>
  A record saved in the middle of a match: players 1 to 3 present, scores 10, 20, 5 and
  0, the game of index 3 running. \<open>example_machine\<close> holds it in memory with a device
  present; \<open>resumed_machine\<close> has read \<open>crashed_image\<close> and then had its blacklist set.
\<close>

definition example_record :: GameSave where
  "example_record =
     \<lparr>header = NBGJ, blacklist = 0, crashedflag = 1, aidiff = 2, pointstowin = 30,
      nextplaystyle = 1, playerconts = [1, 1, 1, 0], points = [10, 20, 5, 0],
      chooser = 2, curgame = 3, checksum = 0, tailpad = 0\<rparr>"

definition example_machine :: machine where
  "example_machine =
     \<lparr>eeprom_type = EEPROM_4K, eeprom = blank_eeprom, global_cansave = 1,
      global_gamesave = example_record, calls = []\<rparr>"

definition resumed_machine :: machine where
  "resumed_machine =
     \<lparr>eeprom_type = EEPROM_4K, eeprom = crashed_image, global_cansave = 1,
      global_gamesave =
        \<lparr>header = NBGJ, blacklist = 1, crashedflag = 1, aidiff = 0, pointstowin = 0,
         nextplaystyle = 0, playerconts = [0, 0, 0, 0], points = [0, 0, 0, 0],
         chooser = 0, curgame = 0, checksum = 34, tailpad = 0\<rparr>,
      calls = [eeprom_read_bytes_call 0 sizeof_GameSave]\<rparr>"

text \<open>Flags for 33 minigames, one more than the blacklist has bits; the last is set.\<close>

definition too_many_flags :: "bool list" where
  "too_many_flags = replicate 32 False @ [True]"

section \<open>The state without a device\<close>

text \<open>
  What holds from power-on as long as \<^verbatim>\<open>eeprom_present\<close> reports no device: the flag
  \<open>global_cansave\<close> is 0 and the crash flag of the record is 0.
\<close>

definition no_device :: "machine \<Rightarrow> bool" where
  "no_device s = (eeprom_type s = EEPROM_NONE \<and> global_cansave s = 0
                  \<and> crashedflag (global_gamesave s) = 0)"

section \<open>Facts about the loops and the byte image\<close>

lemma for_loop_fold: "for_loop i n body st = fold body [i..<n] st"
proof (induction i n body st rule: for_loop.induct)
  case (1 i n body st)
  show ?case
  proof (cases "i < n")
    case True
    with "1" show ?thesis
      by (subst for_loop.simps) (simp add: upt_conv_Cons)
  next
    case False
    then show ?thesis
      by (subst for_loop.simps) simp
  qed
qed

lemma four: "(4::nat) = Suc (Suc (Suc (Suc 0)))" by simp

lemma length_le4: "length h \<le> 4 \<Longrightarrow> h = [] \<or> (\<exists>a. h = [a]) \<or> (\<exists>a b. h = [a,b]) \<or> (\<exists>a b c. h = [a,b,c]) \<or> (\<exists>a b c d. h = [a,b,c,d])"
  by (cases h; cases "tl h"; cases "tl (tl h)"; cases "tl (tl (tl h))"; cases "tl (tl (tl (tl h)))") auto

lemma uint_diff_0: "(uint (a::u8) - uint b = 0) = (a = b)"
  using word_uint_eq_iff [of a b] by auto

lemma strncmp_Suc_0:
  "(strncmp s1 s2 (Suc n) = 0) =
     ((case s1 of [] \<Rightarrow> 0 | c # _ \<Rightarrow> c) = (case s2 of [] \<Rightarrow> 0 | c # _ \<Rightarrow> c)
      \<and> ((case s1 of [] \<Rightarrow> 0 | c # _ \<Rightarrow> c) = 0 \<or> strncmp (tl s1) (tl s2) n = 0))"
  using uint_diff_0 [of "case s1 of [] \<Rightarrow> 0 | c # _ \<Rightarrow> c" "case s2 of [] \<Rightarrow> 0 | c # _ \<Rightarrow> c"]
  by (auto simp: Let_def)

lemma strncmp_NBGJ: "length h \<le> 4 \<Longrightarrow> (strncmp h NBGJ 4 = 0) = (h = NBGJ)"
  using length_le4 [of h]
  unfolding four NBGJ_def
  by (auto simp: strncmp_Suc_0 simp del: strncmp.simps(2))

lemma upt_MAXPLAYERS: "[0..<MAXPLAYERS] = [0, 1, 2, 3]"
  by (simp add: MAXPLAYERS_def upt_rec)

lemma length_asarray: "wf_GameSave gs \<Longrightarrow> length (asarray gs) = sizeof_GameSave"
  by (simp add: wf_GameSave_def asarray_def sizeof_GameSave_def MAXPLAYERS_def u32_bytes_def)

lemma fold_add_nth: "fold (\<lambda>i (c::u8). c + xs ! i) [0..<length xs] c = c + sum_list xs"
proof (induction xs arbitrary: c rule: rev_induct)
  case Nil
  then show ?case by simp
next
  case (snoc x xs)
  have "fold (\<lambda>i c. c + (xs @ [x]) ! i) [0..<length xs] c = fold (\<lambda>i c. c + xs ! i) [0..<length xs] c"
    by (rule fold_cong) (auto simp: nth_append)
  then show ?case using snoc by (simp add: nth_append)
qed

lemma calc_checksum_sum: "wf_GameSave gs \<Longrightarrow> calc_checksum gs = sum_list (asarray gs)"
  using fold_add_nth [of "asarray gs" 0]
  by (simp add: calc_checksum_def for_loop_fold length_asarray)

lemma sum_list_asarray: "wf_GameSave gs \<Longrightarrow> sum_list (asarray gs) = sum_other_bytes gs + checksum gs"
  by (simp add: wf_GameSave_def sum_other_bytes_def asarray_def checksum_offset_def MAXPLAYERS_def u32_bytes_def)

lemma calc_checksum_split:
  "wf_GameSave gs \<Longrightarrow> calc_checksum gs = sum_other_bytes gs + checksum gs"
  by (simp add: calc_checksum_sum sum_list_asarray)

lemma sum_other_bytes_checksum_update:
  "wf_GameSave gs \<Longrightarrow> sum_other_bytes (gs\<lparr>checksum := c\<rparr>) = sum_other_bytes gs"
  by (simp add: wf_GameSave_def sum_other_bytes_def asarray_def checksum_offset_def MAXPLAYERS_def u32_bytes_def)

lemma u32_of_bytes_zero: "u32_of_bytes [0, 0, 0, 0] = 0"
  by (simp add: u32_of_bytes_def)

lemma memset_zero:
  "GameSave_of_bytes (replicate sizeof_GameSave 0) =
     \<lparr>header = [0, 0, 0, 0], blacklist = 0, crashedflag = 0, aidiff = 0, pointstowin = 0,
      nextplaystyle = 0, playerconts = [0, 0, 0, 0], points = [0, 0, 0, 0], chooser = 0,
      curgame = 0, checksum = 0, tailpad = 0\<rparr>"
  by (simp add: GameSave_of_bytes_def sizeof_GameSave_def MAXPLAYERS_def u32_of_bytes_zero
      numeral_eq_Suc)

lemma format_gamesave_eq:
  "format_gamesave =
     \<lparr>header = NBGJ, blacklist = 0, crashedflag = 0, aidiff = 0, pointstowin = 0,
      nextplaystyle = 0, playerconts = [0, 0, 0, 0], points = [0, 0, 0, 0], chooser = 0,
      curgame = 0, checksum = 33, tailpad = 0\<rparr>"
  by (simp add: format_gamesave_def memset_zero Let_def NBGJ_def calc_checksum_sum
      wf_GameSave_def MAXPLAYERS_def asarray_def u32_bytes_def)

lemma fold_playerconts:
  "fold (\<lambda>i r. r\<lparr>playerconts := (playerconts r)[i := f i]\<rparr>) is (r::GameSave) =
     r\<lparr>playerconts := fold (\<lambda>i xs. xs[i := f i]) is (playerconts r)\<rparr>"
  by (induction "is" arbitrary: r) simp_all

lemma fold_points:
  "fold (\<lambda>i r. r\<lparr>points := (points r)[i := f i]\<rparr>) is (r::GameSave) =
     r\<lparr>points := fold (\<lambda>i xs. xs[i := f i]) is (points r)\<rparr>"
  by (induction "is" arbitrary: r) simp_all

lemma grab_game_state_eq:
  "grab_game_state g gs =
     (let r = gs\<lparr>crashedflag := 1,
                 playerconts := (playerconts gs)
                   [0 := of_bool (core_get_playerconts g 0), 1 := of_bool (core_get_playerconts g 1),
                    2 := of_bool (core_get_playerconts g 2), 3 := of_bool (core_get_playerconts g 3)],
                 aidiff := word_of_int (core_get_aidifficulty g),
                 pointstowin := word_of_int (results_get_points_to_win g),
                 points := (points gs)
                   [0 := word_of_int (results_get_points g PLAYER_1),
                    1 := word_of_int (results_get_points g PLAYER_2),
                    2 := word_of_int (results_get_points g PLAYER_3),
                    3 := word_of_int (results_get_points g PLAYER_4)],
                 nextplaystyle := word_of_int (core_get_nextround g),
                 chooser := word_of_int (core_get_curchooser g),
                 curgame := word_of_int (minigame_get_index g)\<rparr>
      in r\<lparr>checksum := calc_checksum r\<rparr>)"
  by (simp add: grab_game_state_def for_loop_fold upt_MAXPLAYERS fold_playerconts fold_points
      Let_def PLAYER_1_def PLAYER_2_def PLAYER_3_def PLAYER_4_def)

lemma wf_grab_game_state: "wf_GameSave gs \<Longrightarrow> wf_GameSave (grab_game_state g gs)"
  by (simp add: grab_game_state_eq Let_def wf_GameSave_def)

lemma crashedflag_grab_game_state: "crashedflag (grab_game_state g gs) = 1"
  by (simp add: grab_game_state_eq Let_def)

lemma checksum_grab_game_state:
  "wf_GameSave gs \<Longrightarrow>
   checksum (grab_game_state g gs) = sum_other_bytes (grab_game_state g gs) + checksum gs"
  by (simp add: grab_game_state_eq Let_def sum_other_bytes_checksum_update calc_checksum_split
      wf_GameSave_def)

lemma replicate4: "replicate 4 x = [x, x, x, x]"
  by (simp add: numeral_eq_Suc)

section \<open>Initialisation\<close>

lemma header_read_gamesave:
  "header (global_gamesave (read_gamesave s)) = take 4 (eeprom s)"
  by (simp add: read_gamesave_def GameSave_of_bytes_def eeprom_read_bytes_def sizeof_GameSave_def)

lemma savestate_initialize_present_unformatted:
  assumes "eeprom_type s \<noteq> EEPROM_NONE" and "take 4 (eeprom s) \<noteq> NBGJ"
  shows "savestate_initialize s =
     (True, s\<lparr>global_cansave := 1, global_gamesave := format_gamesave,
              calls := calls s @ [eeprom_read_bytes_call 0 sizeof_GameSave]\<rparr>)"
proof -
  have "strncmp (take 4 (eeprom s)) NBGJ 4 \<noteq> 0"
    using assms(2) by (simp add: strncmp_NBGJ)
  then show ?thesis
    using assms(1)
    by (simp add: savestate_initialize_def Let_def eeprom_present_def header_read_gamesave)
      (simp add: read_gamesave_def)
qed

text \<open>
  C6: when \<^verbatim>\<open>savestate_initialize\<close> finds a device whose first four bytes are not
  \<^verbatim>\<open>"NBGJ"\<close>, the record in memory afterwards has the header \<^verbatim>\<open>"NBGJ"\<close>, every other
  field zero but the checksum, a checksum (33) equal to the sum of all its other bytes
  modulo 256, and the crash flag reads false.
\<close>

theorem initialize_unformatted:
  assumes "eeprom_type s \<noteq> EEPROM_NONE" and "take 4 (eeprom s) \<noteq> NBGJ"
  shows "global_gamesave (snd (savestate_initialize s)) =
           \<lparr>header = NBGJ, blacklist = 0, crashedflag = 0, aidiff = 0, pointstowin = 0,
            nextplaystyle = 0, playerconts = [0, 0, 0, 0], points = [0, 0, 0, 0],
            chooser = 0, curgame = 0, checksum = 33, tailpad = 0\<rparr>
         \<and> checksum (global_gamesave (snd (savestate_initialize s))) =
             sum_other_bytes (global_gamesave (snd (savestate_initialize s)))
         \<and> \<not> savestate_checkcrashed (snd (savestate_initialize s))"
proof -
  have gs: "global_gamesave (snd (savestate_initialize s)) = format_gamesave"
    using assms by (simp add: savestate_initialize_present_unformatted)
  have "sum_other_bytes format_gamesave = 33"
    by (simp add: format_gamesave_eq sum_other_bytes_def asarray_def checksum_offset_def
        u32_bytes_def NBGJ_def)
  then show ?thesis
    by (simp add: gs savestate_checkcrashed_def) (simp add: format_gamesave_eq)
qed

text \<open>The theorem at power-on with the blank 4-kilobit EEPROM.\<close>

theorem initialize_unformatted_witness:
  "eeprom_type (boot EEPROM_4K blank_eeprom) \<noteq> EEPROM_NONE
   \<and> take 4 (eeprom (boot EEPROM_4K blank_eeprom)) \<noteq> NBGJ
   \<and> header (global_gamesave (snd (savestate_initialize (boot EEPROM_4K blank_eeprom)))) = NBGJ
   \<and> checksum (global_gamesave (snd (savestate_initialize (boot EEPROM_4K blank_eeprom)))) = 33
   \<and> \<not> savestate_checkcrashed (snd (savestate_initialize (boot EEPROM_4K blank_eeprom)))"
proof -
  have a: "eeprom_type (boot EEPROM_4K blank_eeprom) \<noteq> EEPROM_NONE"
    by (simp add: boot_def)
  have b: "take 4 (eeprom (boot EEPROM_4K blank_eeprom)) \<noteq> NBGJ"
    by (simp add: boot_def blank_eeprom_def NBGJ_def replicate4)
  show ?thesis
    using a b initialize_unformatted [OF a b] by simp
qed

text \<open>
  C8: \<^verbatim>\<open>savestate_initialize\<close> never writes to the EEPROM, also where it formats the
  record in memory: the contents stay as they were and the only call it may issue is
  the read. It returns true exactly when a device is present, formatted or not.
\<close>

theorem initialize_never_writes:
  "fst (savestate_initialize s) = (eeprom_type s \<noteq> EEPROM_NONE)
   \<and> eeprom (snd (savestate_initialize s)) = eeprom s
   \<and> calls (snd (savestate_initialize s)) =
       calls s @ (if eeprom_type s = EEPROM_NONE then []
                  else [eeprom_read_bytes_call 0 sizeof_GameSave])"
  by (simp add: savestate_initialize_def Let_def eeprom_present_def read_gamesave_def)

text \<open>A transfer to the EEPROM leaves the globals alone.\<close>

lemma global_gamesave_write: "global_gamesave (write_gamesave s) = global_gamesave s"
  by (simp add: write_gamesave_def)

lemma global_cansave_write: "global_cansave (write_gamesave s) = global_cansave s"
  by (simp add: write_gamesave_def)

section \<open>Every run keeps the record well formed\<close>

text \<open>
  On a device that holds at least \<^verbatim>\<open>sizeof(GameSave)\<close> bytes, whatever is called from
  power-on, the arrays of the record keep their lengths: \<open>wf_GameSave\<close> holds of every
  state a run reaches.
\<close>

lemma wf_format_gamesave: "wf_GameSave format_gamesave"
  by (simp add: format_gamesave_eq wf_GameSave_def NBGJ_def MAXPLAYERS_def)

lemma wf_GameSave_of_bytes:
  "sizeof_GameSave \<le> length bs \<Longrightarrow> wf_GameSave (GameSave_of_bytes bs)"
  by (simp add: wf_GameSave_def GameSave_of_bytes_def sizeof_GameSave_def MAXPLAYERS_def)

lemma length_eeprom_write_gamesave:
  "wf_GameSave (global_gamesave s) \<Longrightarrow> length (eeprom (write_gamesave s)) = max sizeof_GameSave (length (eeprom s))"
  by (simp add: write_gamesave_def eeprom_write_bytes_def length_asarray)

lemma wf_step:
  assumes "wf_GameSave (global_gamesave s)" and "sizeof_GameSave \<le> length (eeprom s)"
    and "step x s = Inr s'"
  shows "wf_GameSave (global_gamesave s') \<and> sizeof_GameSave \<le> length (eeprom s')"
proof (cases x)
  case Initialize
  have "wf_GameSave (GameSave_of_bytes (eeprom_read_bytes (eeprom s) 0 sizeof_GameSave))"
    using assms(2) by (intro wf_GameSave_of_bytes) (simp add: eeprom_read_bytes_def)
  then show ?thesis
    using Initialize assms
    by (auto simp: savestate_initialize_def Let_def read_gamesave_def wf_format_gamesave)
next
  case Checkcrashed
  then show ?thesis using assms by auto
next
  case (Save g configonly)
  then show ?thesis
    using assms
    by (auto simp: savestate_save_def Let_def wf_grab_game_state length_eeprom_write_gamesave
        global_gamesave_write)
next
  case (Load minigame_list)
  then show ?thesis
    using assms by (auto simp: savestate_load_def Let_def split: if_splits)
next
  case Clear
  have "wf_GameSave ((global_gamesave s)\<lparr>crashedflag := 0\<rparr>)"
    using assms(1) by (simp add: wf_GameSave_def)
  then show ?thesis
    using Clear assms
    by (auto simp: savestate_clear_def length_eeprom_write_gamesave global_gamesave_write)
next
  case (Setblacklist n list)
  then show ?thesis
    using assms by (auto simp: savestate_setblacklist_def wf_GameSave_def split: sum.splits)
next
  case (Getblacklist n list)
  then show ?thesis using assms by (auto split: sum.splits)
qed

lemma wf_exec:
  "wf_GameSave (global_gamesave s) \<Longrightarrow> sizeof_GameSave \<le> length (eeprom s) \<Longrightarrow>
   exec xs s = Inr s' \<Longrightarrow> wf_GameSave (global_gamesave s')"
proof (induction xs arbitrary: s)
  case Nil
  then show ?case by simp
next
  case (Cons x xs)
  then show ?case
    by (auto split: sum.splits dest: wf_step)
qed

lemma wf_reachable:
  assumes "sizeof_GameSave \<le> length mem" and "exec xs (boot ty mem) = Inr s"
  shows "wf_GameSave (global_gamesave s)"
proof -
  have "wf_GameSave (global_gamesave (boot ty mem))"
    by (simp add: boot_def memset_zero wf_GameSave_def MAXPLAYERS_def)
  moreover have "sizeof_GameSave \<le> length (eeprom (boot ty mem))"
    using assms(1) by (simp add: boot_def)
  ultimately show ?thesis
    using assms(2) by (rule wf_exec)
qed

section \<open>The checksum after a save and after a clear\<close>

lemma save_full_gamesave:
  "global_cansave s \<noteq> 0 \<Longrightarrow>
   global_gamesave (savestate_save g False s) = grab_game_state g (global_gamesave s)"
  by (simp add: savestate_save_def Let_def global_gamesave_write)

lemma clear_gamesave:
  "global_cansave s \<noteq> 0 \<Longrightarrow>
   global_gamesave (savestate_clear s) = (global_gamesave s)\<lparr>crashedflag := 0\<rparr>"
  by (simp add: savestate_clear_def global_gamesave_write)

text \<open>
  What a full save stores in \<^verbatim>\<open>checksum\<close>: the sum of the other bytes plus the byte
  the field held before, since \<^verbatim>\<open>calc_checksum\<close> runs over the whole structure.
\<close>

lemma save_full_checksum:
  assumes "global_cansave s \<noteq> 0" and "wf_GameSave (global_gamesave s)"
  shows "checksum (global_gamesave (savestate_save g False s)) =
           sum_other_bytes (global_gamesave (savestate_save g False s))
             + checksum (global_gamesave s)"
  using assms by (simp add: save_full_gamesave checksum_grab_game_state)

lemma strncmp_NBGJ_self: "strncmp NBGJ NBGJ 4 = 0"
proof -
  have "length NBGJ \<le> 4" by (simp add: NBGJ_def)
  then show ?thesis by (simp add: strncmp_NBGJ)
qed

lemma init_blank:
  "savestate_initialize (boot EEPROM_4K blank_eeprom) =
     (True, (boot EEPROM_4K blank_eeprom)\<lparr>global_cansave := 1, global_gamesave := format_gamesave,
              calls := [eeprom_read_bytes_call 0 sizeof_GameSave]\<rparr>)"
  using savestate_initialize_present_unformatted [of "boot EEPROM_4K blank_eeprom"]
  by (simp add: boot_def blank_eeprom_def NBGJ_def replicate4)

lemma crashed_image_record:
  "GameSave_of_bytes (eeprom_read_bytes crashed_image 0 sizeof_GameSave) =
     \<lparr>header = NBGJ, blacklist = 0, crashedflag = 1, aidiff = 0, pointstowin = 0,
      nextplaystyle = 0, playerconts = [0, 0, 0, 0], points = [0, 0, 0, 0],
      chooser = 0, curgame = 0, checksum = 34, tailpad = 0\<rparr>"
  by (simp add: GameSave_of_bytes_def eeprom_read_bytes_def crashed_image_def sizeof_GameSave_def
      MAXPLAYERS_def NBGJ_def u32_of_bytes_zero)

lemma init_crashed_image:
  "snd (savestate_initialize (boot EEPROM_4K crashed_image)) =
     (boot EEPROM_4K crashed_image)\<lparr>global_cansave := 1,
        global_gamesave :=
          \<lparr>header = NBGJ, blacklist = 0, crashedflag = 1, aidiff = 0, pointstowin = 0,
           nextplaystyle = 0, playerconts = [0, 0, 0, 0], points = [0, 0, 0, 0],
           chooser = 0, curgame = 0, checksum = 34, tailpad = 0\<rparr>,
        calls := [eeprom_read_bytes_call 0 sizeof_GameSave]\<rparr>"
  by (simp add: savestate_initialize_def Let_def eeprom_present_def read_gamesave_def boot_def
      crashed_image_record strncmp_NBGJ_self)

lemma sum_other_bytes_eval:
  "sum_other_bytes
     \<lparr>header = [a, b, c, d], blacklist = 0, crashedflag = cf, aidiff = 0, pointstowin = 0,
      nextplaystyle = 0, playerconts = [0, 0, 0, 0], points = [0, 0, 0, 0],
      chooser = 0, curgame = 0, checksum = ck, tailpad = 0\<rparr> = a + b + c + d + cf"
  by (simp add: sum_other_bytes_def asarray_def checksum_offset_def u32_bytes_def)

lemma grab_idle_record:
  "grab_game_state idle_game
     \<lparr>header = NBGJ, blacklist = 0, crashedflag = cf, aidiff = 0, pointstowin = 0,
      nextplaystyle = 0, playerconts = [0, 0, 0, 0], points = [0, 0, 0, 0],
      chooser = 0, curgame = 0, checksum = ck, tailpad = 0\<rparr> =
     \<lparr>header = NBGJ, blacklist = 0, crashedflag = 1, aidiff = 0, pointstowin = 0,
      nextplaystyle = 0, playerconts = [0, 0, 0, 0], points = [0, 0, 0, 0],
      chooser = 0, curgame = 0, checksum = 34 + ck, tailpad = 0\<rparr>"
  by (simp add: grab_game_state_eq idle_game_def Let_def calc_checksum_sum
      wf_GameSave_def MAXPLAYERS_def asarray_def u32_bytes_def NBGJ_def)

lemma global_cansave_save: "global_cansave (savestate_save g configonly s) = global_cansave s"
  by (simp add: savestate_save_def Let_def global_cansave_write)

text \<open>
  C1: after a full save (\<^verbatim>\<open>savestate_save(false)\<close>, the specification's
  \<open>save(fullUpdate=true)\<close>) or a \<^verbatim>\<open>savestate_clear\<close>, with \<open>global_cansave\<close> set, the
  checksum byte should be the sum of all the other bytes of the record modulo 256. The
  code run from power-on does not keep that. On the blank EEPROM, formatting leaves the
  checksum 33, the sum of the other bytes. A full save of the idle game then stores 67
  where the other bytes sum to 34, and a second full save of the same game stores 101
  where they still sum to 34: each time the byte already in the field is added in. On
  the EEPROM that holds a record with the checksum 34 of its other bytes,
  \<^verbatim>\<open>savestate_clear\<close> zeroes the crash flag and keeps 34 where the other bytes now sum
  to 33.
\<close>

theorem checksum_stale_after_save_and_clear:
  "global_cansave (snd (savestate_initialize (boot EEPROM_4K blank_eeprom))) = 1
   \<and> checksum (global_gamesave (snd (savestate_initialize (boot EEPROM_4K blank_eeprom)))) = 33
   \<and> sum_other_bytes
        (global_gamesave (snd (savestate_initialize (boot EEPROM_4K blank_eeprom)))) = 33
   \<and> checksum (global_gamesave
        (savestate_save idle_game False
          (snd (savestate_initialize (boot EEPROM_4K blank_eeprom))))) = 67
   \<and> sum_other_bytes (global_gamesave
        (savestate_save idle_game False
          (snd (savestate_initialize (boot EEPROM_4K blank_eeprom))))) = 34
   \<and> checksum (global_gamesave
        (savestate_save idle_game False (savestate_save idle_game False
          (snd (savestate_initialize (boot EEPROM_4K blank_eeprom)))))) = 101
   \<and> sum_other_bytes (global_gamesave
        (savestate_save idle_game False (savestate_save idle_game False
          (snd (savestate_initialize (boot EEPROM_4K blank_eeprom)))))) = 34
   \<and> global_cansave (snd (savestate_initialize (boot EEPROM_4K crashed_image))) = 1
   \<and> checksum (global_gamesave (snd (savestate_initialize (boot EEPROM_4K crashed_image)))) = 34
   \<and> sum_other_bytes
        (global_gamesave (snd (savestate_initialize (boot EEPROM_4K crashed_image)))) = 34
   \<and> checksum (global_gamesave
        (savestate_clear (snd (savestate_initialize (boot EEPROM_4K crashed_image))))) = 34
   \<and> sum_other_bytes (global_gamesave
        (savestate_clear (snd (savestate_initialize (boot EEPROM_4K crashed_image))))) = 33"
proof -
  let ?s1 = "snd (savestate_initialize (boot EEPROM_4K blank_eeprom))"
  let ?s2 = "snd (savestate_initialize (boot EEPROM_4K crashed_image))"
  have c1: "global_cansave ?s1 = 1"
    by (simp add: init_blank)
  have f: "global_gamesave ?s1 = format_gamesave"
    by (simp add: init_blank)
  have a: "global_gamesave (savestate_save idle_game False ?s1) =
             \<lparr>header = NBGJ, blacklist = 0, crashedflag = 1, aidiff = 0, pointstowin = 0,
              nextplaystyle = 0, playerconts = [0, 0, 0, 0], points = [0, 0, 0, 0],
              chooser = 0, curgame = 0, checksum = 67, tailpad = 0\<rparr>"
    using c1 by (simp add: save_full_gamesave f format_gamesave_eq grab_idle_record)
  have "global_cansave (savestate_save idle_game False ?s1) \<noteq> 0"
    using c1 by (simp add: global_cansave_save)
  then have b: "global_gamesave (savestate_save idle_game False (savestate_save idle_game False ?s1)) =
             \<lparr>header = NBGJ, blacklist = 0, crashedflag = 1, aidiff = 0, pointstowin = 0,
              nextplaystyle = 0, playerconts = [0, 0, 0, 0], points = [0, 0, 0, 0],
              chooser = 0, curgame = 0, checksum = 101, tailpad = 0\<rparr>"
    by (simp add: save_full_gamesave a grab_idle_record)
  have c2: "global_cansave ?s2 = 1"
    by (simp add: init_crashed_image)
  have d: "global_gamesave (savestate_clear ?s2) =
             \<lparr>header = NBGJ, blacklist = 0, crashedflag = 0, aidiff = 0, pointstowin = 0,
              nextplaystyle = 0, playerconts = [0, 0, 0, 0], points = [0, 0, 0, 0],
              chooser = 0, curgame = 0, checksum = 34, tailpad = 0\<rparr>"
    using c2 by (simp add: clear_gamesave) (simp add: init_crashed_image)
  show ?thesis
    by (simp add: c1 c2 f a b d format_gamesave_eq)
      (simp add: init_crashed_image sum_other_bytes_eval NBGJ_def)
qed

section \<open>Without a device\<close>

lemma no_device_step:
  assumes "no_device s" and "step x s = Inr s'"
  shows "no_device s'"
proof (cases x)
  case Initialize
  then show ?thesis
    using assms by (auto simp: no_device_def savestate_initialize_def Let_def eeprom_present_def)
next
  case Checkcrashed
  then show ?thesis using assms by auto
next
  case (Save g configonly)
  then show ?thesis using assms by (auto simp: no_device_def savestate_save_def)
next
  case (Load minigame_list)
  then show ?thesis using assms by (auto simp: no_device_def savestate_load_def)
next
  case Clear
  then show ?thesis using assms by (auto simp: no_device_def savestate_clear_def)
next
  case (Setblacklist n list)
  then show ?thesis
    using assms by (auto simp: no_device_def savestate_setblacklist_def split: sum.splits)
next
  case (Getblacklist n list)
  then show ?thesis using assms by (auto split: sum.splits)
qed

lemma no_device_exec: "no_device s \<Longrightarrow> exec xs s = Inr s' \<Longrightarrow> no_device s'"
proof (induction xs arbitrary: s)
  case Nil
  then show ?case by simp
next
  case (Cons x xs)
  then show ?case
    by (auto split: sum.splits dest: no_device_step)
qed

lemma no_device_boot: "no_device (snd (savestate_initialize (boot EEPROM_NONE mem)))"
  by (simp add: no_device_def savestate_initialize_def Let_def eeprom_present_def boot_def
      memset_zero)

text \<open>
  C2: once \<^verbatim>\<open>savestate_initialize\<close> has found no device at power-on, whatever is
  called afterwards, \<^verbatim>\<open>savestate_save\<close> in either mode, \<^verbatim>\<open>savestate_load\<close> and
  \<^verbatim>\<open>savestate_clear\<close> leave the record in memory, the EEPROM and the list of calls as
  they are, and \<^verbatim>\<open>savestate_checkcrashed\<close> returns false.
\<close>

theorem no_device_no_ops:
  assumes "exec xs (snd (savestate_initialize (boot EEPROM_NONE mem))) = Inr s"
  shows "\<not> fst (savestate_initialize (boot EEPROM_NONE mem))
         \<and> global_cansave s = 0
         \<and> savestate_save g configonly s = s
         \<and> savestate_load minigame_list s = Inr s
         \<and> savestate_clear s = s
         \<and> \<not> savestate_checkcrashed s"
proof -
  have "no_device s"
    using no_device_boot assms by (rule no_device_exec)
  then show ?thesis
    by (simp add: no_device_def savestate_save_def savestate_load_def savestate_clear_def
        savestate_checkcrashed_def savestate_initialize_def Let_def eeprom_present_def boot_def)
qed

lemma setblacklist_first_of_two:
  "savestate_setblacklist 2 [True, False] s = Inr (s\<lparr>global_gamesave := (global_gamesave s)\<lparr>blacklist := 1\<rparr>\<rparr>)"
  by (simp add: savestate_setblacklist_def setblacklist_loop.simps)

text \<open>The theorem after a blacklist update, a full save, a clear and a second initialisation.\<close>

theorem no_device_no_ops_witness:
  "\<exists>s. exec [Setblacklist 2 [True, False], Save idle_game False, Clear, Initialize]
          (snd (savestate_initialize (boot EEPROM_NONE []))) = Inr s
       \<and> blacklist (global_gamesave s) = 1
       \<and> savestate_save idle_game False s = s
       \<and> savestate_save idle_game True s = s
       \<and> savestate_load [] s = Inr s
       \<and> savestate_clear s = s
       \<and> \<not> savestate_checkcrashed s"
proof -
  let ?boot = "snd (savestate_initialize (boot EEPROM_NONE []))"
  let ?fin = "?boot\<lparr>global_gamesave := (global_gamesave ?boot)\<lparr>blacklist := 1\<rparr>\<rparr>"
  have run: "exec [Setblacklist 2 [True, False], Save idle_game False, Clear, Initialize] ?boot = Inr ?fin"
    by (simp add: setblacklist_first_of_two savestate_save_def savestate_clear_def savestate_initialize_def
        Let_def eeprom_present_def boot_def)
  show ?thesis
    using run no_device_no_ops [OF run, of idle_game False "[]"]
      no_device_no_ops [OF run, of idle_game True "[]"]
    by (intro exI [of _ ?fin]) simp
qed

section \<open>The crash flag\<close>

text \<open>
  C3: with \<open>global_cansave\<close> set, \<^verbatim>\<open>savestate_checkcrashed\<close> returns true right after a
  full save (\<^verbatim>\<open>savestate_save(false)\<close>, the specification's \<open>save(fullUpdate=true)\<close>) and
  false after a following \<^verbatim>\<open>savestate_clear\<close>; and no \<^verbatim>\<open>savestate_load\<close>, on any
  state, changes what it returns.
\<close>

theorem crash_flag_lifecycle:
  assumes "global_cansave s \<noteq> 0"
  shows "savestate_checkcrashed (savestate_save g False s)
         \<and> \<not> savestate_checkcrashed (savestate_clear (savestate_save g False s))
         \<and> (\<forall>minigame_list t t'. savestate_load minigame_list t = Inr t' \<longrightarrow>
               savestate_checkcrashed t' = savestate_checkcrashed t)"
  using assms
  by (auto simp: savestate_checkcrashed_def save_full_gamesave crashedflag_grab_game_state
      clear_gamesave savestate_save_def savestate_load_def Let_def global_gamesave_write
      global_cansave_write split: if_splits)

text \<open>The theorem on the sample machine with a table of four minigames.\<close>

theorem crash_flag_lifecycle_witness:
  "global_cansave example_machine \<noteq> 0
   \<and> savestate_checkcrashed (savestate_save idle_game False example_machine)
   \<and> \<not> savestate_checkcrashed (savestate_clear (savestate_save idle_game False example_machine))
   \<and> (\<exists>t'. savestate_load [''a'', ''b'', ''c'', ''d''] example_machine = Inr t'
          \<and> savestate_checkcrashed t' = savestate_checkcrashed example_machine)"
proof -
  have c: "global_cansave example_machine \<noteq> 0"
    by (simp add: example_machine_def)
  have "\<exists>t'. savestate_load [''a'', ''b'', ''c'', ''d''] example_machine = Inr t'"
    by (simp add: savestate_load_def example_machine_def example_record_def Let_def)
  then show ?thesis
    using c crash_flag_lifecycle [OF c, of idle_game] by auto
qed

section \<open>Saving the configuration only\<close>

lemma write_gamesave_nth:
  assumes "wf_GameSave (global_gamesave s)" and "i < length (eeprom s)"
    and "i < sizeof_GameSave \<longrightarrow> eeprom s ! i = asarray (global_gamesave s) ! i"
  shows "eeprom (write_gamesave s) ! i = eeprom s ! i"
proof -
  have len: "length (asarray (global_gamesave s)) = sizeof_GameSave"
    using assms(1) by (rule length_asarray)
  have e: "eeprom (write_gamesave s) = asarray (global_gamesave s) @ drop sizeof_GameSave (eeprom s)"
    using len by (simp add: write_gamesave_def eeprom_write_bytes_def)
  show ?thesis
  proof (cases "i < sizeof_GameSave")
    case True
    then show ?thesis using assms(3) len by (simp add: e nth_append)
  next
    case False
    then show ?thesis using assms(2) len by (simp add: e nth_append)
  qed
qed

text \<open>
  C5: \<^verbatim>\<open>savestate_save(true)\<close>, the specification's \<open>save(fullUpdate=false)\<close>, leaves
  \<^verbatim>\<open>crashedflag\<close>, \<^verbatim>\<open>aidiff\<close>, \<^verbatim>\<open>pointstowin\<close>, \<^verbatim>\<open>playerconts\<close>, \<^verbatim>\<open>points\<close>,
  \<^verbatim>\<open>nextplaystyle\<close>, \<^verbatim>\<open>chooser\<close> and \<^verbatim>\<open>curgame\<close>, indeed the whole record, as they
  were. Nothing is taken from the game: the result does not depend on the getters, and
  what goes to the EEPROM is the image of the record as it stood. A byte of the EEPROM
  that already agreed with the record keeps its value, so when only the blacklist was
  changed since the last transfer, only the blacklist bytes change in the EEPROM.
\<close>

theorem config_only_save:
  "crashedflag (global_gamesave (savestate_save g True s)) = crashedflag (global_gamesave s)
   \<and> aidiff (global_gamesave (savestate_save g True s)) = aidiff (global_gamesave s)
   \<and> pointstowin (global_gamesave (savestate_save g True s)) = pointstowin (global_gamesave s)
   \<and> playerconts (global_gamesave (savestate_save g True s)) = playerconts (global_gamesave s)
   \<and> points (global_gamesave (savestate_save g True s)) = points (global_gamesave s)
   \<and> nextplaystyle (global_gamesave (savestate_save g True s)) = nextplaystyle (global_gamesave s)
   \<and> chooser (global_gamesave (savestate_save g True s)) = chooser (global_gamesave s)
   \<and> curgame (global_gamesave (savestate_save g True s)) = curgame (global_gamesave s)
   \<and> global_gamesave (savestate_save g True s) = global_gamesave s
   \<and> savestate_save g True s = savestate_save g' True s
   \<and> eeprom (savestate_save g True s) =
       (if global_cansave s = 0 then eeprom s
        else eeprom_write_bytes (eeprom s) (asarray (global_gamesave s)) 0 sizeof_GameSave)
   \<and> (wf_GameSave (global_gamesave s) \<and> i < length (eeprom s)
        \<and> (i < sizeof_GameSave \<longrightarrow> eeprom s ! i = asarray (global_gamesave s) ! i)
       \<longrightarrow> eeprom (savestate_save g True s) ! i = eeprom s ! i)"
proof -
  have gs: "global_gamesave (savestate_save g True s) = global_gamesave s"
    by (simp add: savestate_save_def global_gamesave_write)
  have fields:
    "crashedflag (global_gamesave (savestate_save g True s)) = crashedflag (global_gamesave s)"
    "aidiff (global_gamesave (savestate_save g True s)) = aidiff (global_gamesave s)"
    "pointstowin (global_gamesave (savestate_save g True s)) = pointstowin (global_gamesave s)"
    "playerconts (global_gamesave (savestate_save g True s)) = playerconts (global_gamesave s)"
    "points (global_gamesave (savestate_save g True s)) = points (global_gamesave s)"
    "nextplaystyle (global_gamesave (savestate_save g True s)) = nextplaystyle (global_gamesave s)"
    "chooser (global_gamesave (savestate_save g True s)) = chooser (global_gamesave s)"
    "curgame (global_gamesave (savestate_save g True s)) = curgame (global_gamesave s)"
    by (simp_all add: gs)
  have indep: "savestate_save g True s = savestate_save g' True s"
    by (simp add: savestate_save_def)
  have img: "eeprom (savestate_save g True s) =
       (if global_cansave s = 0 then eeprom s
        else eeprom_write_bytes (eeprom s) (asarray (global_gamesave s)) 0 sizeof_GameSave)"
    by (simp add: savestate_save_def write_gamesave_def)
  have mirror: "wf_GameSave (global_gamesave s) \<and> i < length (eeprom s)
        \<and> (i < sizeof_GameSave \<longrightarrow> eeprom s ! i = asarray (global_gamesave s) ! i)
       \<longrightarrow> eeprom (savestate_save g True s) ! i = eeprom s ! i"
    by (simp add: savestate_save_def write_gamesave_nth)
  show ?thesis
    by (intro conjI) (rule fields gs indep img mirror)+
qed

text \<open>
  The theorem on \<open>resumed_machine\<close>: the byte of the crash flag at offset 8 stays 1, the
  last blacklist byte at offset 7 goes from 0 to 1.
\<close>

theorem config_only_save_witness:
  "wf_GameSave (global_gamesave resumed_machine)
   \<and> 8 < length (eeprom resumed_machine)
   \<and> eeprom resumed_machine ! 8 = asarray (global_gamesave resumed_machine) ! 8
   \<and> global_gamesave (savestate_save idle_game True resumed_machine) = global_gamesave resumed_machine
   \<and> crashedflag (global_gamesave (savestate_save idle_game True resumed_machine)) = 1
   \<and> eeprom (savestate_save idle_game True resumed_machine) ! 8 = 1
   \<and> eeprom resumed_machine ! 7 = 0
   \<and> eeprom (savestate_save idle_game True resumed_machine) ! 7 = 1"
proof -
  have a: "wf_GameSave (global_gamesave resumed_machine)"
    by (simp add: resumed_machine_def wf_GameSave_def NBGJ_def MAXPLAYERS_def)
  have b: "8 < length (eeprom resumed_machine)"
    by (simp add: resumed_machine_def crashed_image_def)
  have c: "eeprom resumed_machine ! 8 = asarray (global_gamesave resumed_machine) ! 8"
    by (simp add: resumed_machine_def crashed_image_def asarray_def NBGJ_def u32_bytes_def)
  have d: "eeprom resumed_machine ! 8 = 1" "eeprom resumed_machine ! 7 = 0"
    by (simp_all add: resumed_machine_def crashed_image_def)
  have e: "eeprom_write_bytes (eeprom resumed_machine) (asarray (global_gamesave resumed_machine)) 0
             sizeof_GameSave ! 7 = 1"
    by (simp add: resumed_machine_def crashed_image_def asarray_def NBGJ_def u32_bytes_def
        eeprom_write_bytes_def sizeof_GameSave_def)
  have f: "global_cansave resumed_machine \<noteq> 0" "crashedflag (global_gamesave resumed_machine) = 1"
    by (simp_all add: resumed_machine_def)
  show ?thesis
    using a b c d e f config_only_save [of idle_game resumed_machine idle_game 8]
    by auto
qed

section \<open>Loading\<close>

lemma load_conts:
  "for_loop 0 MAXPLAYERS (\<lambda>i a. a[i := f i]) (replicate MAXPLAYERS False) = [f 0, f 1, f 2, f 3]"
  by (simp add: for_loop_fold upt_MAXPLAYERS) (simp add: MAXPLAYERS_def replicate4)

text \<open>
  C7, as the code has it: with \<open>global_cansave\<close> set and \<^verbatim>\<open>curgame\<close> below the number of
  entries of the minigame table, \<^verbatim>\<open>savestate_load\<close> returns having issued exactly these
  calls, in this order: the four player flags (a byte counts as true when it is not 0),
  \<^verbatim>\<open>aidiff\<close>, \<^verbatim>\<open>pointstowin\<close>, the points of players 1 to 4, \<^verbatim>\<open>nextplaystyle\<close>,
  \<^verbatim>\<open>chooser\<close>, and \<^verbatim>\<open>minigame_loadnext\<close> with the name of entry \<^verbatim>\<open>curgame\<close>. There is
  no EEPROM transfer among them, and the EEPROM and the record are unchanged.
\<close>

theorem load_pushes_record:
  assumes "global_cansave s \<noteq> 0"
    and "unat (curgame (global_gamesave s)) < length minigame_list"
  shows "savestate_load minigame_list s =
     Inr (s\<lparr>calls := calls s @
       [core_set_playercount
          [playerconts (global_gamesave s) ! 0 \<noteq> 0, playerconts (global_gamesave s) ! 1 \<noteq> 0,
           playerconts (global_gamesave s) ! 2 \<noteq> 0, playerconts (global_gamesave s) ! 3 \<noteq> 0],
        core_set_aidifficulty (aidiff (global_gamesave s)),
        results_set_points_to_win (pointstowin (global_gamesave s)),
        results_set_points PLAYER_1 (points (global_gamesave s) ! 0),
        results_set_points PLAYER_2 (points (global_gamesave s) ! 1),
        results_set_points PLAYER_3 (points (global_gamesave s) ! 2),
        results_set_points PLAYER_4 (points (global_gamesave s) ! 3),
        core_set_nextround (nextplaystyle (global_gamesave s)),
        core_set_curchooser (chooser (global_gamesave s)),
        minigame_loadnext (minigame_list ! unat (curgame (global_gamesave s)))]\<rparr>)"
  using assms by (simp add: savestate_load_def Let_def load_conts)

text \<open>
  The theorem on the sample record, points 10, 20, 5, 0, players 1 to 3 present, game 3,
  with a table of five minigames.
\<close>

theorem load_pushes_record_witness:
  "global_cansave example_machine \<noteq> 0
   \<and> unat (curgame (global_gamesave example_machine)) < length [''a'', ''b'', ''c'', ''d'', ''e'']
   \<and> savestate_load [''a'', ''b'', ''c'', ''d'', ''e''] example_machine =
     Inr (example_machine\<lparr>calls :=
       [core_set_playercount [True, True, True, False],
        core_set_aidifficulty 2,
        results_set_points_to_win 30,
        results_set_points PLAYER_1 10,
        results_set_points PLAYER_2 20,
        results_set_points PLAYER_3 5,
        results_set_points PLAYER_4 0,
        core_set_nextround 1,
        core_set_curchooser 2,
        minigame_loadnext ''d'']\<rparr>)"
proof -
  have a: "global_cansave example_machine \<noteq> 0"
    by (simp add: example_machine_def)
  have b: "unat (curgame (global_gamesave example_machine)) < length [''a'', ''b'', ''c'', ''d'', ''e'']"
    by (simp add: example_machine_def example_record_def)
  show ?thesis
    using a b load_pushes_record [OF a b]
    by (simp add: example_machine_def example_record_def)
qed

text \<open>
  C7 as stated, for any record, fails on the same record when the table has two
  entries: \<^verbatim>\<open>global_minigame_list[3]\<close> lies past the table and no minigame is resumed.
\<close>

theorem load_past_the_table:
  "global_cansave example_machine \<noteq> 0
   \<and> curgame (global_gamesave example_machine) = 3
   \<and> savestate_load [''a'', ''b''] example_machine = Inl Out_of_bounds"
  by (simp add: savestate_load_def example_machine_def example_record_def Let_def)

section \<open>The blacklist\<close>

lemma bit_flag: "bit (push_bit i (of_bool p AND (1::u32))) j \<longleftrightarrow> (p \<and> j = i \<and> i < 32)"
  by (cases p) (auto simp: bit_simps)

lemma test_bit: "(drop_bit i (w::u32) AND 1 \<noteq> 0) = bit w i"
proof -
  have "drop_bit i w AND 1 = of_bool (bit w i)"
    by (simp only: and_one_eq mod_2_eq_odd bit_iff_odd_drop_bit)
  then show ?thesis
    by (cases "bit w i") simp_all
qed

lemma setblacklist_loop_Inr:
  assumes "global_minigame_count \<le> 32" and "global_minigame_count \<le> length list"
  shows "\<exists>bf. setblacklist_loop global_minigame_count list i b = Inr bf
           \<and> (\<forall>j. bit bf j \<longleftrightarrow> bit b j \<or> (i \<le> j \<and> j < global_minigame_count \<and> list ! j))"
  using assms
proof (induction global_minigame_count list i b rule: setblacklist_loop.induct)
  case (1 n list i b)
  show ?case
  proof (cases "i < n")
    case True
    then have a: "\<not> length list \<le> i" "\<not> 32 \<le> i" using "1.prems" by auto
    obtain bf where bf: "setblacklist_loop n list (i + 1) (b OR push_bit i (of_bool (list ! i) AND 1)) = Inr bf"
      and bits: "\<forall>j. bit bf j \<longleftrightarrow> bit (b OR push_bit i (of_bool (list ! i) AND 1)) j
                     \<or> (i + 1 \<le> j \<and> j < n \<and> list ! j)"
      using "1.IH" [OF True a] "1.prems" by blast
    have "setblacklist_loop n list i b = Inr bf"
      using True a bf by (subst setblacklist_loop.simps) simp
    moreover have "\<forall>j. bit bf j \<longleftrightarrow> bit b j \<or> (i \<le> j \<and> j < n \<and> list ! j)"
    proof
      fix j
      have "i < 32" using a by simp
      then have step: "bit (b OR push_bit i (of_bool (list ! i) AND 1)) j
                         \<longleftrightarrow> bit b j \<or> (list ! i \<and> j = i)"
        by (simp only: bit_or_iff bit_flag) simp
      have "bit bf j \<longleftrightarrow> (bit b j \<or> (list ! i \<and> j = i)) \<or> (i + 1 \<le> j \<and> j < n \<and> list ! j)"
        using bits step by (simp only:)
      then show "bit bf j \<longleftrightarrow> bit b j \<or> (i \<le> j \<and> j < n \<and> list ! j)"
        using True by (auto simp: Suc_le_eq le_less)
    qed
    ultimately show ?thesis by blast
  next
    case False
    then show ?thesis
      by (subst setblacklist_loop.simps) auto
  qed
qed

lemma getblacklist_loop_Inr:
  assumes "global_minigame_count \<le> 32" and "global_minigame_count \<le> length list"
  shows "\<exists>r. getblacklist_loop global_minigame_count bl i list = Inr r
           \<and> length r = length list
           \<and> (\<forall>j < length list.
                 r ! j = (if i \<le> j \<and> j < global_minigame_count then bit bl j else list ! j))"
  using assms
proof (induction global_minigame_count bl i list rule: getblacklist_loop.induct)
  case (1 n bl i list)
  show ?case
  proof (cases "i < n")
    case True
    then have a: "\<not> length list \<le> i" "\<not> 32 \<le> i" using "1.prems" by auto
    let ?l = "list[i := (drop_bit i bl AND 1 \<noteq> 0)]"
    obtain r where r: "getblacklist_loop n bl (i + 1) ?l = Inr r"
      and len: "length r = length ?l"
      and nth: "\<forall>j < length ?l. r ! j = (if i + 1 \<le> j \<and> j < n then bit bl j else ?l ! j)"
      using "1.IH" [OF True a] "1.prems" by auto
    have "getblacklist_loop n bl i list = Inr r"
      using True a r by (subst getblacklist_loop.simps) simp
    moreover have "length r = length list" using len by simp
    moreover have "\<forall>j < length list. r ! j = (if i \<le> j \<and> j < n then bit bl j else list ! j)"
      using nth True a by (auto simp: test_bit nth_list_update Suc_le_eq le_less)
    ultimately show ?thesis by blast
  next
    case False
    then show ?thesis
      by (subst getblacklist_loop.simps) auto
  qed
qed

text \<open>
  C4: for every array \<open>flags\<close> of \<^verbatim>\<open>global_minigame_count\<close> booleans, the count at most
  32, \<^verbatim>\<open>savestate_setblacklist(flags)\<close> followed at once by \<^verbatim>\<open>savestate_getblacklist(out)\<close>
  leaves \<open>out\<close> equal to \<open>flags\<close>; nothing is saved or loaded in between.
\<close>

theorem blacklist_roundtrip:
  assumes "length flags = global_minigame_count" and "global_minigame_count \<le> 32"
    and "length out = global_minigame_count"
  shows "\<exists>s'. savestate_setblacklist global_minigame_count flags s = Inr s'
           \<and> savestate_getblacklist global_minigame_count out s' = Inr flags"
proof -
  obtain bf where bf: "setblacklist_loop global_minigame_count flags 0 0 = Inr bf"
    and bits: "\<forall>j. bit bf j \<longleftrightarrow>
                 bit (0::u32) j \<or> (0 \<le> j \<and> j < global_minigame_count \<and> flags ! j)"
    using setblacklist_loop_Inr [of global_minigame_count flags 0 0] assms by auto
  let ?s' = "s\<lparr>global_gamesave := (global_gamesave s)\<lparr>blacklist := bf\<rparr>\<rparr>"
  have set: "savestate_setblacklist global_minigame_count flags s = Inr ?s'"
    by (simp add: savestate_setblacklist_def bf)
  obtain r where r: "getblacklist_loop global_minigame_count bf 0 out = Inr r"
    and len: "length r = length out"
    and nth: "\<forall>j < length out.
                r ! j = (if 0 \<le> j \<and> j < global_minigame_count then bit bf j else out ! j)"
    using getblacklist_loop_Inr [of global_minigame_count out bf 0] assms by auto
  have "r = flags"
  proof (rule nth_equalityI)
    show "length r = length flags" using len assms by simp
  next
    fix j assume "j < length r"
    then have "j < global_minigame_count" using len assms by simp
    then show "r ! j = flags ! j" using nth bits assms by simp
  qed
  then have "savestate_getblacklist global_minigame_count out ?s' = Inr flags"
    using r by (simp add: savestate_getblacklist_def)
  with set show ?thesis by blast
qed

text \<open>Three minigames, the first and the third blacklisted.\<close>

theorem blacklist_roundtrip_witness:
  "length [True, False, True] = (3::nat) \<and> (3::nat) \<le> 32
   \<and> length [False, False, False] = (3::nat)
   \<and> (\<exists>s'. savestate_setblacklist 3 [True, False, True] (boot EEPROM_4K blank_eeprom) = Inr s'
          \<and> savestate_getblacklist 3 [False, False, False] s' = Inr [True, False, True])"
  using blacklist_roundtrip
    [of "[True, False, True]" 3 "[False, False, False]" "boot EEPROM_4K blank_eeprom"]
  by simp

lemma setblacklist_Inr:
  assumes "global_minigame_count \<le> 32" and "global_minigame_count \<le> length flags"
  shows "\<exists>bf. (\<forall>j. bit bf j \<longleftrightarrow> j < global_minigame_count \<and> flags ! j)
           \<and> (\<forall>t. savestate_setblacklist global_minigame_count flags t =
                  Inr (t\<lparr>global_gamesave := (global_gamesave t)\<lparr>blacklist := bf\<rparr>\<rparr>))"
proof -
  obtain bf where bf: "setblacklist_loop global_minigame_count flags 0 0 = Inr bf"
    and bits: "\<forall>j. bit bf j \<longleftrightarrow>
                 bit (0::u32) j \<or> (0 \<le> j \<and> j < global_minigame_count \<and> flags ! j)"
    using setblacklist_loop_Inr [of global_minigame_count flags 0 0] assms by auto
  have "\<forall>j. bit bf j \<longleftrightarrow> j < global_minigame_count \<and> flags ! j"
    using bits by simp
  moreover have "\<forall>t. savestate_setblacklist global_minigame_count flags t =
                  Inr (t\<lparr>global_gamesave := (global_gamesave t)\<lparr>blacklist := bf\<rparr>\<rparr>)"
    by (simp add: savestate_setblacklist_def bf)
  ultimately show ?thesis by blast
qed

lemma getblacklist_Inr:
  assumes "global_minigame_count \<le> 32" and "length out = global_minigame_count"
    and "length flags = global_minigame_count"
    and "\<forall>j. bit (blacklist (global_gamesave s)) j \<longleftrightarrow> j < global_minigame_count \<and> flags ! j"
  shows "savestate_getblacklist global_minigame_count out s = Inr flags"
proof -
  obtain r where r: "getblacklist_loop global_minigame_count (blacklist (global_gamesave s)) 0 out = Inr r"
    and len: "length r = length out"
    and nth: "\<forall>j < length out.
                r ! j = (if 0 \<le> j \<and> j < global_minigame_count
                         then bit (blacklist (global_gamesave s)) j else out ! j)"
    using getblacklist_loop_Inr [of global_minigame_count out "blacklist (global_gamesave s)" 0] assms
    by auto
  have "r = flags"
  proof (rule nth_equalityI)
    show "length r = length flags" using len assms by simp
  next
    fix j assume "j < length r"
    then have "j < global_minigame_count" using len assms by simp
    then show "r ! j = flags ! j" using nth assms by simp
  qed
  then show ?thesis
    using r by (simp add: savestate_getblacklist_def)
qed

text \<open>
  C9, as the code has it: \<^verbatim>\<open>savestate_setblacklist\<close> does not test \<open>global_cansave\<close>.
  With the flag at 0, for every array of \<^verbatim>\<open>global_minigame_count\<close> flags, the count at
  most 32, it returns with bit \<open>i\<close> of the blacklist in memory equal to flag \<open>i\<close>, and
  \<^verbatim>\<open>savestate_getblacklist\<close> then returns the flags; \<^verbatim>\<open>savestate_save\<close>,
  \<^verbatim>\<open>savestate_load\<close> and \<^verbatim>\<open>savestate_clear\<close> on that state do nothing.
\<close>

theorem setblacklist_not_guarded:
  assumes "global_cansave s = 0"
    and "length flags = global_minigame_count" and "global_minigame_count \<le> 32"
    and "length out = global_minigame_count"
  shows "\<exists>s'. savestate_setblacklist global_minigame_count flags s = Inr s'
           \<and> (\<forall>j. bit (blacklist (global_gamesave s')) j \<longleftrightarrow> j < global_minigame_count \<and> flags ! j)
           \<and> savestate_getblacklist global_minigame_count out s' = Inr flags
           \<and> savestate_save g configonly s' = s'
           \<and> savestate_load minigame_list s' = Inr s'
           \<and> savestate_clear s' = s'"
proof -
  obtain bf where bits: "\<forall>j. bit bf j \<longleftrightarrow> j < global_minigame_count \<and> flags ! j"
    and set: "savestate_setblacklist global_minigame_count flags s =
                Inr (s\<lparr>global_gamesave := (global_gamesave s)\<lparr>blacklist := bf\<rparr>\<rparr>)"
    using setblacklist_Inr [of global_minigame_count flags] assms by auto
  let ?s' = "s\<lparr>global_gamesave := (global_gamesave s)\<lparr>blacklist := bf\<rparr>\<rparr>"
  have bl: "\<forall>j. bit (blacklist (global_gamesave ?s')) j \<longleftrightarrow> j < global_minigame_count \<and> flags ! j"
    using bits by simp
  have get: "savestate_getblacklist global_minigame_count out ?s' = Inr flags"
    using assms(3,4,2) bl by (rule getblacklist_Inr)
  have guarded: "savestate_save g configonly ?s' = ?s'" "savestate_load minigame_list ?s' = Inr ?s'"
    "savestate_clear ?s' = ?s'"
    using assms(1) by (simp_all add: savestate_save_def savestate_load_def savestate_clear_def)
  show ?thesis
    using set bl get guarded by blast
qed

text \<open>The theorem at power-on without a device, for three minigames.\<close>

theorem setblacklist_not_guarded_witness:
  "global_cansave (boot EEPROM_NONE []) = 0
   \<and> (\<exists>s'. savestate_setblacklist 3 [True, False, True] (boot EEPROM_NONE []) = Inr s'
          \<and> blacklist (global_gamesave s') = 5
          \<and> savestate_getblacklist 3 [False, False, False] s' = Inr [True, False, True]
          \<and> savestate_save idle_game False s' = s'
          \<and> savestate_load [] s' = Inr s'
          \<and> savestate_clear s' = s')"
proof -
  have a: "global_cansave (boot EEPROM_NONE []) = 0"
    by (simp add: boot_def)
  have b: "savestate_setblacklist 3 [True, False, True] (boot EEPROM_NONE []) =
             Inr ((boot EEPROM_NONE [])\<lparr>global_gamesave :=
                    (global_gamesave (boot EEPROM_NONE []))\<lparr>blacklist := 5\<rparr>\<rparr>)"
    by (simp add: savestate_setblacklist_def setblacklist_loop.simps)
  show ?thesis
    using a b setblacklist_not_guarded
      [of "boot EEPROM_NONE []" "[True, False, True]" 3 "[False, False, False]" idle_game False "[]"]
    by auto
qed

text \<open>
  C9 as stated, for every array, fails for 33 flags: at index 32 the shift
  \<^verbatim>\<open>(list[32] & 0x01) << 32\<close> is undefined, the call has no result, and 33 flags could
  not be read back from 32 bits.
\<close>

theorem setblacklist_not_guarded_too_many:
  "global_cansave (boot EEPROM_NONE []) = 0
   \<and> length too_many_flags = 33
   \<and> savestate_setblacklist 33 too_many_flags (boot EEPROM_NONE []) = Inl Shift_too_wide"
  by (simp add: boot_def too_many_flags_def savestate_setblacklist_def setblacklist_loop.simps
      nth_append)

text \<open>
  C10, as the code has it: for every array of \<^verbatim>\<open>global_minigame_count\<close> flags, the
  count at most 32, \<^verbatim>\<open>savestate_setblacklist\<close> replaces the whole \<^verbatim>\<open>blacklist\<close> field by
  one value \<open>bf\<close>, the same whatever the state before: bit \<open>i\<close> of \<open>bf\<close> is flag \<open>i\<close>
  below the count and 0 from the count on. No other field of the record changes, the
  checksum included, and nothing else of the state.
\<close>

theorem setblacklist_overwrites:
  assumes "length flags = global_minigame_count" and "global_minigame_count \<le> 32"
  shows "\<exists>bf. (\<forall>j. bit bf j \<longleftrightarrow> j < global_minigame_count \<and> flags ! j)
           \<and> (\<forall>t. savestate_setblacklist global_minigame_count flags t =
                  Inr (t\<lparr>global_gamesave := (global_gamesave t)\<lparr>blacklist := bf\<rparr>\<rparr>))"
  using assms setblacklist_Inr [of global_minigame_count flags] by simp

text \<open>The theorem for three minigames, on two machines whose blacklists differ before.\<close>

theorem setblacklist_overwrites_witness:
  "length [True, False, True] = (3::nat) \<and> (3::nat) \<le> 32
   \<and> savestate_setblacklist 3 [True, False, True] resumed_machine =
       Inr (resumed_machine\<lparr>global_gamesave := (global_gamesave resumed_machine)\<lparr>blacklist := 5\<rparr>\<rparr>)
   \<and> savestate_setblacklist 3 [True, False, True] example_machine =
       Inr (example_machine\<lparr>global_gamesave := (global_gamesave example_machine)\<lparr>blacklist := 5\<rparr>\<rparr>)"
proof -
  obtain bf :: u32 where bits: "\<forall>j. bit bf j \<longleftrightarrow> j < (3::nat) \<and> [True, False, True] ! j"
    and set: "\<forall>t. savestate_setblacklist 3 [True, False, True] t =
                  Inr (t\<lparr>global_gamesave := (global_gamesave t)\<lparr>blacklist := bf\<rparr>\<rparr>)"
    using setblacklist_overwrites [of "[True, False, True]" 3] by auto
  have "savestate_setblacklist 3 [True, False, True] example_machine =
       Inr (example_machine\<lparr>global_gamesave := (global_gamesave example_machine)\<lparr>blacklist := 5\<rparr>\<rparr>)"
    by (simp add: savestate_setblacklist_def setblacklist_loop.simps)
  then have "bf = 5"
    using set by (simp add: example_machine_def example_record_def)
  then show ?thesis
    using set by simp
qed

text \<open>
  C10 as stated, for every array, fails for 33 flags with the last set: the shift by 32
  is undefined and the call has no result.
\<close>

theorem setblacklist_overwrites_too_many:
  "length too_many_flags = 33
   \<and> savestate_setblacklist 33 too_many_flags resumed_machine = Inl Shift_too_wide"
  by (simp add: too_many_flags_def savestate_setblacklist_def setblacklist_loop.simps nth_append)

end
